theory Spec2Isabelle
  imports Complex_Main
begin

section \<open>The simulation engine of \<^verbatim>\<open>src/frontend/src/lib/api.ts\<close>\<close>

text \<open>
  The TypeScript type \<^verbatim>\<open>number\<close> is modelled by \<^typ>\<open>real\<close>: the arithmetic of the
  engine is read over exact numbers. NaN, the infinities and the rounding of IEEE doubles
  are outside this model; the generator only produces finite numbers and the score is only
  computed for samples it produced.

  The field \<^verbatim>\<open>date\<close> holds the string that \<^verbatim>\<open>format(d, "yyyy-MM-dd")\<close> of date-fns
  returns. A calendar day is modelled by its day number (an \<^typ>\<open>int\<close>, one more for each
  following day), and the formatted string is identified with the day it denotes.
\<close>

subsection \<open>Data model\<close>

record HealthMetric =
  date :: int
  heartRate :: real
  hrv :: real
  sleepDuration :: real
  activityLevel :: real
  breathingRate :: real
  systolicBP :: real
  diastolicBP :: real
  bloodSugar :: real
  symptoms :: "string list"

record CareScoreBreakdown =
  severity :: real
  persistence :: real
  crossSignal :: real
  manualModifier :: real
  total :: real

datatype Status = Stable | Mild | Moderate | High

record AnalysisResult =
  currentScore :: real
  breakdown :: CareScoreBreakdown
  status :: Status
  driftDetected :: bool
  confidence :: real
  stability :: real
  trends :: "HealthMetric list"

subsection \<open>The constant \<^verbatim>\<open>BASELINE\<close>\<close>

definition BASELINE_heartRate :: real where
  "BASELINE_heartRate = 70"

definition BASELINE_hrv :: real where
  "BASELINE_hrv = 65"

definition BASELINE_sleepDuration :: real where
  "BASELINE_sleepDuration = 7.5"

definition BASELINE_breathingRate :: real where
  "BASELINE_breathingRate = 14"

definition BASELINE_systolicBP :: real where
  "BASELINE_systolicBP = 120"

definition BASELINE_diastolicBP :: real where
  "BASELINE_diastolicBP = 80"

definition BASELINE_bloodSugar :: real where
  "BASELINE_bloodSugar = 90"

lemmas BASELINE_defs =
  BASELINE_heartRate_def BASELINE_hrv_def BASELINE_sleepDuration_def
  BASELINE_breathingRate_def BASELINE_systolicBP_def BASELINE_diastolicBP_def
  BASELINE_bloodSugar_def

subsection \<open>Library functions the engine calls\<close>

text \<open>
  \<^verbatim>\<open>Math.round\<close> returns the integer nearest to its argument, a tie going to the
  larger one: it is the floor of the argument plus one half.
\<close>

definition Math_round :: "real \<Rightarrow> real" where
  "Math_round x = of_int \<lfloor>x + 1 / 2\<rfloor>"

subsection \<open>\<^verbatim>\<open>generateSimulationData\<close>\<close>

text \<open>
  The function reads three things from its environment, and each is a parameter of the
  model.
  \<^item> The clock, read once in every iteration of the loop (\<^verbatim>\<open>new Date()\<close>):
    \<open>clock i\<close> is the instant that the reading of iteration \<open>i\<close> returns. Instants are
    of an arbitrary type \<open>'t\<close>.
  \<^item> The date library date-fns, which is not part of the repository:
    \<open>subDays t n\<close> is the calendar day denoted by the string
    \<^verbatim>\<open>format(subDays(t, n), "yyyy-MM-dd")\<close>. On local wall-clock time this need not be
    the \<open>n\<close>-th day before the day of \<open>t\<close>: a time zone may skip a local day.
  \<^item> The random source, read eight times in every iteration (one call of \<^verbatim>\<open>noise\<close>
    for each numeric field, in the order of the fields of the object literal):
    \<open>rnd k\<close> is the value the \<open>k\<close>-th call of \<^verbatim>\<open>Math.random()\<close> returns, counted
    from 0, so that iteration \<open>i\<close> draws \<open>rnd (8 * i)\<close> to \<open>rnd (8 * i + 7)\<close>.
\<close>

definition days :: nat where
  "days = 60"

definition driftFactor :: "nat \<Rightarrow> real" where
  "driftFactor i = (if i > 30 then (real i - 30) / 30 else 0)"

definition noise :: "real \<Rightarrow> real \<Rightarrow> real" where
  "noise r scale = (r - 0.5) * scale"

definition generate_day ::
  "('t \<Rightarrow> nat \<Rightarrow> int) \<Rightarrow> (nat \<Rightarrow> 't) \<Rightarrow> (nat \<Rightarrow> real) \<Rightarrow> nat \<Rightarrow> HealthMetric" where
  "generate_day subDays clock rnd i =
    \<lparr> date = subDays (clock i) (days - 1 - i),
      heartRate = BASELINE_heartRate + (driftFactor i * 15) + noise (rnd (8 * i)) 5,
      hrv = BASELINE_hrv - (driftFactor i * 20) + noise (rnd (8 * i + 1)) 10,
      sleepDuration =
        max 4 (BASELINE_sleepDuration - (driftFactor i * 2) + noise (rnd (8 * i + 2)) 1),
      activityLevel = 8000 - (driftFactor i * 3000) + noise (rnd (8 * i + 3)) 2000,
      breathingRate = BASELINE_breathingRate + (driftFactor i * 4) + noise (rnd (8 * i + 4)) 2,
      systolicBP = BASELINE_systolicBP + (driftFactor i * 10) + noise (rnd (8 * i + 5)) 5,
      diastolicBP = BASELINE_diastolicBP + (driftFactor i * 5) + noise (rnd (8 * i + 6)) 5,
      bloodSugar = BASELINE_bloodSugar + (driftFactor i * 15) + noise (rnd (8 * i + 7)) 10,
      symptoms = (if i > 45 then [''Fatigue'', ''Mild Dizziness''] else []) \<rparr>"

text \<open>The \<^verbatim>\<open>for\<close> loop: \<open>i\<close> is the loop counter and \<open>data\<close> the array built so far.\<close>

function generate_loop ::
  "('t \<Rightarrow> nat \<Rightarrow> int) \<Rightarrow> (nat \<Rightarrow> 't) \<Rightarrow> (nat \<Rightarrow> real) \<Rightarrow> nat \<Rightarrow> HealthMetric list
    \<Rightarrow> HealthMetric list" where
  "generate_loop subDays clock rnd i data =
    (if i < days
     then generate_loop subDays clock rnd (Suc i) (data @ [generate_day subDays clock rnd i])
     else data)"
  by pat_completeness auto
termination
  by (relation "measure (\<lambda>(subDays, clock, rnd, i, data). days - i)") auto

declare generate_loop.simps [simp del]

definition generateSimulationData ::
  "('t \<Rightarrow> nat \<Rightarrow> int) \<Rightarrow> (nat \<Rightarrow> 't) \<Rightarrow> (nat \<Rightarrow> real) \<Rightarrow> HealthMetric list" where
  "generateSimulationData subDays clock rnd = generate_loop subDays clock rnd 0 []"

subsection \<open>\<^verbatim>\<open>calculateCareScore\<close>\<close>

text \<open>
  The second argument is the value that the one call of \<^verbatim>\<open>Math.random()\<close> returns; it
  only enters \<open>confidence\<close>. A variable the source assigns more than once has one
  primed name for each assignment.
\<close>

definition calculateCareScore :: "HealthMetric \<Rightarrow> real \<Rightarrow> AnalysisResult" where
  "calculateCareScore metric r =
    (let hrDev = max 0 ((heartRate metric - BASELINE_heartRate) / 10);
         hrvDev = max 0 ((BASELINE_hrv - hrv metric) / 10);
         sleepDev = max 0 (BASELINE_sleepDuration - sleepDuration metric);
         severity' = (hrDev + hrvDev + sleepDev) * 5;
         severity'' = min 40 severity';
         persistence' = min 25 (severity'' * 0.6);
         signals = (0 :: real);
         signals' = (if heartRate metric > BASELINE_heartRate + 5 then signals + 1 else signals);
         signals'' = (if hrv metric < BASELINE_hrv - 5 then signals' + 1 else signals');
         signals''' =
           (if sleepDuration metric < BASELINE_sleepDuration - 1 then signals'' + 1
            else signals'');
         signals'''' =
           (if breathingRate metric > BASELINE_breathingRate + 2 then signals''' + 1
            else signals''');
         crossSignal' = min 20 (signals'''' * 5);
         manual = (0 :: real);
         manual' = (if systolicBP metric > 130 then manual + 5 else manual);
         manual'' = (if bloodSugar metric > 110 then manual' + 5 else manual');
         manual''' = (if length (symptoms metric) > 0 then manual'' + 5 else manual'');
         manual'''' = min 15 manual''';
         totalScore = Math_round (severity'' + persistence' + crossSignal' + manual'''');
         status' = Stable;
         status'' = (if totalScore > 30 then Mild else status');
         status''' = (if totalScore > 50 then Moderate else status'');
         status'''' = (if totalScore > 70 then High else status''')
     in \<lparr> currentScore = totalScore,
          breakdown = \<lparr> severity = severity'', persistence = persistence',
            crossSignal = crossSignal', manualModifier = manual'''', total = totalScore \<rparr>,
          status = status'''',
          driftDetected = (totalScore > 30),
          confidence = 85 + (r * 10),
          stability = max 0 (100 - totalScore),
          trends = [] \<rparr>)"

subsection \<open>Environments of the examples\<close>

text \<open>
  A calendar without irregular days, an instant being identified with the day it falls
  on: the day \<open>n\<close> days before day \<open>t\<close>.
\<close>

definition calendar_subDays :: "int \<Rightarrow> nat \<Rightarrow> int" where
  "calendar_subDays t n = t - int n"

text \<open>A call all of whose clock readings fall on day 20000.\<close>

definition clock_same_day :: "nat \<Rightarrow> int" where
  "clock_same_day i = 20000"


text \<open>A random source that always returns one half, so that every noise term is zero.\<close>

definition rnd_half :: "nat \<Rightarrow> real" where
  "rnd_half k = 1 / 2"

section \<open>Properties\<close>

subsection \<open>The fields of the result of \<^verbatim>\<open>calculateCareScore\<close>\<close>

lemma calc_severity:
  "severity (breakdown (calculateCareScore m r)) =
     min 40 ((max 0 ((heartRate m - BASELINE_heartRate) / 10)
            + max 0 ((BASELINE_hrv - hrv m) / 10)
            + max 0 (BASELINE_sleepDuration - sleepDuration m)) * 5)"
  unfolding calculateCareScore_def Let_def
  by (simp only: AnalysisResult.select_convs CareScoreBreakdown.select_convs)

lemma calc_persistence:
  "persistence (breakdown (calculateCareScore m r)) =
     min 25 (severity (breakdown (calculateCareScore m r)) * 0.6)"
  unfolding calculateCareScore_def Let_def
  by (simp only: AnalysisResult.select_convs CareScoreBreakdown.select_convs)

lemma calc_crossSignal:
  "crossSignal (breakdown (calculateCareScore m r)) =
     min 20 (((if heartRate m > BASELINE_heartRate + 5 then 1 else 0)
            + (if hrv m < BASELINE_hrv - 5 then 1 else 0)
            + (if sleepDuration m < BASELINE_sleepDuration - 1 then 1 else 0)
            + (if breathingRate m > BASELINE_breathingRate + 2 then 1 else 0)) * 5)"
  unfolding calculateCareScore_def Let_def
  by (simp only: AnalysisResult.select_convs CareScoreBreakdown.select_convs) simp

lemma calc_manualModifier:
  "manualModifier (breakdown (calculateCareScore m r)) =
     min 15 ((if systolicBP m > 130 then 5 else 0)
           + (if bloodSugar m > 110 then 5 else 0)
           + (if symptoms m \<noteq> [] then 5 else 0))"
  unfolding calculateCareScore_def Let_def
  by (simp only: AnalysisResult.select_convs CareScoreBreakdown.select_convs) simp

lemma calc_total:
  "total (breakdown (calculateCareScore m r)) =
     Math_round (severity (breakdown (calculateCareScore m r))
               + persistence (breakdown (calculateCareScore m r))
               + crossSignal (breakdown (calculateCareScore m r))
               + manualModifier (breakdown (calculateCareScore m r)))"
  unfolding calculateCareScore_def Let_def
  by (simp only: AnalysisResult.select_convs CareScoreBreakdown.select_convs)

lemma calc_currentScore:
  "currentScore (calculateCareScore m r) = total (breakdown (calculateCareScore m r))"
  unfolding calculateCareScore_def Let_def
  by (simp only: AnalysisResult.select_convs CareScoreBreakdown.select_convs)

lemma calc_status:
  "status (calculateCareScore m r) =
     (if total (breakdown (calculateCareScore m r)) > 70 then High
      else if total (breakdown (calculateCareScore m r)) > 50 then Moderate
      else if total (breakdown (calculateCareScore m r)) > 30 then Mild
      else Stable)"
  unfolding calculateCareScore_def Let_def
  by (simp only: AnalysisResult.select_convs CareScoreBreakdown.select_convs)

lemma calc_driftDetected:
  "driftDetected (calculateCareScore m r) = (total (breakdown (calculateCareScore m r)) > 30)"
  unfolding calculateCareScore_def Let_def
  by (simp only: AnalysisResult.select_convs CareScoreBreakdown.select_convs)

lemma calc_stability:
  "stability (calculateCareScore m r) = max 0 (100 - total (breakdown (calculateCareScore m r)))"
  unfolding calculateCareScore_def Let_def
  by (simp only: AnalysisResult.select_convs CareScoreBreakdown.select_convs)

lemma calc_confidence: "confidence (calculateCareScore m r) = 85 + r * 10"
  unfolding calculateCareScore_def Let_def
  by (simp only: AnalysisResult.select_convs CareScoreBreakdown.select_convs)

lemma calc_trends: "trends (calculateCareScore m r) = []"
  unfolding calculateCareScore_def Let_def
  by (simp only: AnalysisResult.select_convs CareScoreBreakdown.select_convs)

lemma severity_bounds:
  "0 \<le> severity (breakdown (calculateCareScore m r))"
  "severity (breakdown (calculateCareScore m r)) \<le> 40"
  by (simp_all add: calc_severity)

lemma persistence_bounds:
  "0 \<le> persistence (breakdown (calculateCareScore m r))"
  "persistence (breakdown (calculateCareScore m r)) \<le> 25"
  using severity_bounds [of m r] by (simp_all add: calc_persistence)

lemma persistence_exact:
  "persistence (breakdown (calculateCareScore m r)) =
     severity (breakdown (calculateCareScore m r)) * 0.6"
  using severity_bounds [of m r] by (simp add: calc_persistence)

lemma crossSignal_bounds:
  "0 \<le> crossSignal (breakdown (calculateCareScore m r))"
  "crossSignal (breakdown (calculateCareScore m r)) \<le> 20"
  by (simp_all add: calc_crossSignal)

lemma manualModifier_bounds:
  "0 \<le> manualModifier (breakdown (calculateCareScore m r))"
  "manualModifier (breakdown (calculateCareScore m r)) \<le> 15"
  by (simp_all add: calc_manualModifier)

lemma Math_round_le: "x \<le> of_int n \<Longrightarrow> Math_round x \<le> of_int n"
  unfolding Math_round_def by simp linarith

lemma Math_round_nearest: "\<bar>Math_round x - x\<bar> \<le> 1 / 2"
  unfolding Math_round_def by linarith

lemma Math_round_int: "Math_round x \<in> \<int>"
  by (simp add: Math_round_def)

lemma total_le_99: "total (breakdown (calculateCareScore m r)) \<le> 99"
proof -
  have "severity (breakdown (calculateCareScore m r))
      + persistence (breakdown (calculateCareScore m r))
      + crossSignal (breakdown (calculateCareScore m r))
      + manualModifier (breakdown (calculateCareScore m r)) \<le> of_int 99"
    using severity_bounds(2) [of m r] persistence_exact [of m r]
      crossSignal_bounds(2) [of m r] manualModifier_bounds(2) [of m r]
    by simp
  from Math_round_le [OF this] show ?thesis
    unfolding calc_total by simp
qed

subsection \<open>The loop of \<^verbatim>\<open>generateSimulationData\<close>\<close>

lemma generate_loop_eq:
  "generate_loop subDays clock rnd i data = data @ map (generate_day subDays clock rnd) [i..<days]"
proof (induction subDays clock rnd i data rule: generate_loop.induct)
  case (1 subDays clock rnd i data)
  show ?case
  proof (cases "i < days")
    case True
    then show ?thesis
      using "1.IH" by (subst generate_loop.simps) (simp add: upt_conv_Cons)
  next
    case False
    then show ?thesis
      by (subst generate_loop.simps) simp
  qed
qed

lemma generateSimulationData_eq:
  "generateSimulationData subDays clock rnd = map (generate_day subDays clock rnd) [0..<60]"
  by (simp add: generateSimulationData_def generate_loop_eq days_def)


lemma generateSimulationData_nth:
  "i < 60 \<Longrightarrow> generateSimulationData subDays clock rnd ! i = generate_day subDays clock rnd i"
  by (simp add: generateSimulationData_eq)








lemma generate_day_fields:
  "heartRate (generate_day subDays clock rnd i) = 70 + driftFactor i * 15 + (rnd (8 * i) - 1 / 2) * 5"
  "hrv (generate_day subDays clock rnd i) = 65 - driftFactor i * 20 + (rnd (8 * i + 1) - 1 / 2) * 10"
  "sleepDuration (generate_day subDays clock rnd i) =
     max 4 (7.5 - driftFactor i * 2 + (rnd (8 * i + 2) - 1 / 2) * 1)"
  "activityLevel (generate_day subDays clock rnd i) =
     8000 - driftFactor i * 3000 + (rnd (8 * i + 3) - 1 / 2) * 2000"
  "breathingRate (generate_day subDays clock rnd i) =
     14 + driftFactor i * 4 + (rnd (8 * i + 4) - 1 / 2) * 2"
  "systolicBP (generate_day subDays clock rnd i) =
     120 + driftFactor i * 10 + (rnd (8 * i + 5) - 1 / 2) * 5"
  "diastolicBP (generate_day subDays clock rnd i) =
     80 + driftFactor i * 5 + (rnd (8 * i + 6) - 1 / 2) * 5"
  "bloodSugar (generate_day subDays clock rnd i) =
     90 + driftFactor i * 15 + (rnd (8 * i + 7) - 1 / 2) * 10"
  by (simp_all add: generate_day_def noise_def BASELINE_defs)

lemma driftFactor_range: "i < 60 \<Longrightarrow> 0 \<le> driftFactor i \<and> driftFactor i \<le> 29 / 30"
  by (simp add: driftFactor_def)

lemma generate_day_symptoms:
  "symptoms (generate_day subDays clock rnd i) =
     (if i > 45 then [''Fatigue'', ''Mild Dizziness''] else [])"
  by (simp add: generate_day_def)

lemma map_const_on:
  "(\<And>x. x \<in> set xs \<Longrightarrow> f x = c) \<Longrightarrow> map f xs = replicate (length xs) c"
  by (induction xs) auto

lemma symptoms_of_series:
  "map symptoms (generateSimulationData subDays clock rnd) =
     replicate 46 [] @ replicate 14 [''Fatigue'', ''Mild Dizziness'']"
proof -
  have split: "[0..<60] = [0..<46] @ [46..<60]"
    using upt_add_eq_append [of 0 46 14] by simp
  have n: "length [0..<46::nat] = 46" "length [46..<60::nat] = 14"
    by simp_all
  have "map (\<lambda>i. symptoms (generate_day subDays clock rnd i)) [0..<46] =
      replicate (length [0..<46::nat]) []"
    by (rule map_const_on) (simp add: generate_day_symptoms)
  then have early: "map (\<lambda>i. symptoms (generate_day subDays clock rnd i)) [0..<46] = replicate 46 []"
    by (simp only: n)
  have "map (\<lambda>i. symptoms (generate_day subDays clock rnd i)) [46..<60] =
      replicate (length [46..<60::nat]) [''Fatigue'', ''Mild Dizziness'']"
    by (rule map_const_on) (auto simp: generate_day_symptoms)
  then have late: "map (\<lambda>i. symptoms (generate_day subDays clock rnd i)) [46..<60] =
      replicate 14 [''Fatigue'', ''Mild Dizziness'']"
    by (simp only: n)
  have "map symptoms (generateSimulationData subDays clock rnd) =
      map (\<lambda>i. symptoms (generate_day subDays clock rnd i)) ([0..<46] @ [46..<60])"
    unfolding generateSimulationData_eq split by (simp add: comp_def)
  then show ?thesis
    by (simp only: map_append early late)
qed

subsection \<open>Literal scenarios\<close>

text \<open>
  Claim C1. For the sample with heartRate 100, hrv 45, sleepDuration 5.5, breathingRate 18,
  systolicBP 135, bloodSugar 120 and the one symptom "Fatigue", whatever its date,
  activityLevel and diastolicBP are, \<open>calculateCareScore\<close> returns the breakdown severity 35,
  persistence 21, crossSignal 20, manualModifier 15, total 91, the status High and
  driftDetected true.
\<close>

theorem C1_literal_high_sample:
  "breakdown (calculateCareScore
      \<lparr> date = d, heartRate = 100, hrv = 45, sleepDuration = 5.5, activityLevel = a,
        breathingRate = 18, systolicBP = 135, diastolicBP = dia, bloodSugar = 120,
        symptoms = [''Fatigue''] \<rparr> r)
    = \<lparr> severity = 35, persistence = 21, crossSignal = 20, manualModifier = 15, total = 91 \<rparr>
   \<and> status (calculateCareScore
      \<lparr> date = d, heartRate = 100, hrv = 45, sleepDuration = 5.5, activityLevel = a,
        breathingRate = 18, systolicBP = 135, diastolicBP = dia, bloodSugar = 120,
        symptoms = [''Fatigue''] \<rparr> r) = High
   \<and> driftDetected (calculateCareScore
      \<lparr> date = d, heartRate = 100, hrv = 45, sleepDuration = 5.5, activityLevel = a,
        breathingRate = 18, systolicBP = 135, diastolicBP = dia, bloodSugar = 120,
        symptoms = [''Fatigue''] \<rparr> r)"
  by (simp add: calculateCareScore_def BASELINE_defs Let_def Math_round_def)

text \<open>
  Claim C4. For the sample exactly at the baseline (heartRate 70, hrv 65, sleepDuration 7.5,
  breathingRate 14, systolicBP 120, diastolicBP 80, bloodSugar 90, no symptoms), whatever
  its date and activityLevel are, \<open>calculateCareScore\<close> returns severity 0, persistence 0,
  crossSignal 0, manualModifier 0, total 0, the status Stable and driftDetected false.
\<close>

theorem C4_baseline_sample:
  "breakdown (calculateCareScore
      \<lparr> date = d, heartRate = 70, hrv = 65, sleepDuration = 7.5, activityLevel = a,
        breathingRate = 14, systolicBP = 120, diastolicBP = 80, bloodSugar = 90,
        symptoms = [] \<rparr> r)
    = \<lparr> severity = 0, persistence = 0, crossSignal = 0, manualModifier = 0, total = 0 \<rparr>
   \<and> status (calculateCareScore
      \<lparr> date = d, heartRate = 70, hrv = 65, sleepDuration = 7.5, activityLevel = a,
        breathingRate = 14, systolicBP = 120, diastolicBP = 80, bloodSugar = 90,
        symptoms = [] \<rparr> r) = Stable
   \<and> \<not> driftDetected (calculateCareScore
      \<lparr> date = d, heartRate = 70, hrv = 65, sleepDuration = 7.5, activityLevel = a,
        breathingRate = 14, systolicBP = 120, diastolicBP = 80, bloodSugar = 90,
        symptoms = [] \<rparr> r)"
  by (simp add: calculateCareScore_def BASELINE_defs Let_def Math_round_def)

subsection \<open>Bounds of the components\<close>

text \<open>
  Claim C2. For every sample, each component of the breakdown lies within its cap: severity
  in [0, 40], persistence in [0, 25], crossSignal in [0, 20], manualModifier in [0, 15]. The
  total is \<^verbatim>\<open>Math.round\<close> of the sum of the four components: an integer at most one
  half away from that sum. It is returned as it is (\<open>currentScore\<close> is the same number,
  nothing clamps it after the rounding) and it is at most 100.
\<close>

theorem C2_component_caps:
  "0 \<le> severity (breakdown (calculateCareScore m r))
   \<and> severity (breakdown (calculateCareScore m r)) \<le> 40
   \<and> 0 \<le> persistence (breakdown (calculateCareScore m r))
   \<and> persistence (breakdown (calculateCareScore m r)) \<le> 25
   \<and> 0 \<le> crossSignal (breakdown (calculateCareScore m r))
   \<and> crossSignal (breakdown (calculateCareScore m r)) \<le> 20
   \<and> 0 \<le> manualModifier (breakdown (calculateCareScore m r))
   \<and> manualModifier (breakdown (calculateCareScore m r)) \<le> 15
   \<and> total (breakdown (calculateCareScore m r)) =
       Math_round (severity (breakdown (calculateCareScore m r))
                 + persistence (breakdown (calculateCareScore m r))
                 + crossSignal (breakdown (calculateCareScore m r))
                 + manualModifier (breakdown (calculateCareScore m r)))
   \<and> total (breakdown (calculateCareScore m r)) \<in> \<int>
   \<and> \<bar>total (breakdown (calculateCareScore m r))
        - (severity (breakdown (calculateCareScore m r))
           + persistence (breakdown (calculateCareScore m r))
           + crossSignal (breakdown (calculateCareScore m r))
           + manualModifier (breakdown (calculateCareScore m r)))\<bar> \<le> 1 / 2
   \<and> currentScore (calculateCareScore m r) = total (breakdown (calculateCareScore m r))
   \<and> total (breakdown (calculateCareScore m r)) \<le> 100"
proof -
  have "total (breakdown (calculateCareScore m r)) \<in> \<int>"
    unfolding calc_total by (rule Math_round_int)
  moreover have "\<bar>total (breakdown (calculateCareScore m r))
        - (severity (breakdown (calculateCareScore m r))
           + persistence (breakdown (calculateCareScore m r))
           + crossSignal (breakdown (calculateCareScore m r))
           + manualModifier (breakdown (calculateCareScore m r)))\<bar> \<le> 1 / 2"
    unfolding calc_total by (rule Math_round_nearest)
  moreover have "total (breakdown (calculateCareScore m r)) \<le> 100"
    using total_le_99 [of m r] by simp
  ultimately show ?thesis
    using severity_bounds [of m r] persistence_bounds [of m r] crossSignal_bounds [of m r]
      manualModifier_bounds [of m r] calc_total [of m r] calc_currentScore [of m r]
    by blast
qed

text \<open>
  Claim C9. For every sample the persistence is exactly severity times 0.6: the minimum
  with 25 never binds. Hence persistence is at most 24, the total is at most 99, and
  stability is 100 minus the total and at least 1, so that the maximum with 0 never binds.
\<close>

theorem C9_persistence_cap_never_binds:
  "persistence (breakdown (calculateCareScore m r)) =
     severity (breakdown (calculateCareScore m r)) * 0.6
   \<and> persistence (breakdown (calculateCareScore m r)) \<le> 24
   \<and> total (breakdown (calculateCareScore m r)) \<le> 99
   \<and> stability (calculateCareScore m r) = 100 - total (breakdown (calculateCareScore m r))
   \<and> stability (calculateCareScore m r) \<ge> 1"
proof -
  have "persistence (breakdown (calculateCareScore m r)) \<le> 24"
    using severity_bounds(2) [of m r] by (simp add: persistence_exact)
  moreover have "stability (calculateCareScore m r) =
      100 - total (breakdown (calculateCareScore m r))"
    using total_le_99 [of m r] by (simp add: calc_stability)
  moreover have "stability (calculateCareScore m r) \<ge> 1"
    using total_le_99 [of m r] by (simp add: calc_stability)
  ultimately show ?thesis
    using persistence_exact [of m r] total_le_99 [of m r] by blast
qed

subsection \<open>Status, drift and stability\<close>

text \<open>
  Claim C3. The status is a function of the total alone: Stable when the total is at most
  30, Mild when it is above 30 and at most 50, Moderate when it is above 50 and at most 70,
  High when it is above 70. In particular a total of exactly 50 gives Mild.
\<close>

theorem C3_status_thresholds:
  "status (calculateCareScore m r) =
     (if total (breakdown (calculateCareScore m r)) \<le> 30 then Stable
      else if total (breakdown (calculateCareScore m r)) \<le> 50 then Mild
      else if total (breakdown (calculateCareScore m r)) \<le> 70 then Moderate
      else High)
   \<and> (total (breakdown (calculateCareScore m r)) = 50 \<longrightarrow>
        status (calculateCareScore m r) = Mild)"
  by (simp add: calc_status)

text \<open>A sample whose total is exactly 50: severity 25, persistence 15, crossSignal 10.\<close>

theorem C3_status_thresholds_witness:
  "total (breakdown (calculateCareScore
      \<lparr> date = 0, heartRate = 95, hrv = 40, sleepDuration = 7.5, activityLevel = 8000,
        breathingRate = 14, systolicBP = 120, diastolicBP = 80, bloodSugar = 90,
        symptoms = [] \<rparr> 0)) = 50
   \<and> status (calculateCareScore
      \<lparr> date = 0, heartRate = 95, hrv = 40, sleepDuration = 7.5, activityLevel = 8000,
        breathingRate = 14, systolicBP = 120, diastolicBP = 80, bloodSugar = 90,
        symptoms = [] \<rparr> 0) = Mild"
proof -
  have t: "total (breakdown (calculateCareScore
      \<lparr> date = 0, heartRate = 95, hrv = 40, sleepDuration = 7.5, activityLevel = 8000,
        breathingRate = 14, systolicBP = 120, diastolicBP = 80, bloodSugar = 90,
        symptoms = [] \<rparr> 0)) = 50"
    by (simp add: calculateCareScore_def BASELINE_defs Let_def Math_round_def)
  with C3_status_thresholds [of "\<lparr> date = 0, heartRate = 95, hrv = 40, sleepDuration = 7.5,
        activityLevel = 8000, breathingRate = 14, systolicBP = 120, diastolicBP = 80,
        bloodSugar = 90, symptoms = [] \<rparr>" 0]
  show ?thesis by blast
qed

text \<open>
  Claim C5. For every sample, driftDetected holds exactly when the total is above 30, and
  stability is the maximum of 0 and 100 minus the total; two results with the same total
  have the same driftDetected and the same stability.
\<close>

theorem C5_drift_and_stability:
  "driftDetected (calculateCareScore m r) = (total (breakdown (calculateCareScore m r)) > 30)
   \<and> stability (calculateCareScore m r) =
       max 0 (100 - total (breakdown (calculateCareScore m r)))
   \<and> (total (breakdown (calculateCareScore m r)) = total (breakdown (calculateCareScore m' r'))
        \<longrightarrow> driftDetected (calculateCareScore m r) = driftDetected (calculateCareScore m' r')
          \<and> stability (calculateCareScore m r) = stability (calculateCareScore m' r'))"
  by (simp add: calc_driftDetected calc_stability)

text \<open>Two different samples with the same total, 50.\<close>

theorem C5_drift_and_stability_witness:
  "total (breakdown (calculateCareScore
      \<lparr> date = 0, heartRate = 95, hrv = 40, sleepDuration = 7.5, activityLevel = 8000,
        breathingRate = 14, systolicBP = 120, diastolicBP = 80, bloodSugar = 90,
        symptoms = [] \<rparr> 0))
   = total (breakdown (calculateCareScore
      \<lparr> date = 1, heartRate = 70, hrv = 65, sleepDuration = 2.5, activityLevel = 5000,
        breathingRate = 14, systolicBP = 135, diastolicBP = 85, bloodSugar = 90,
        symptoms = [] \<rparr> (1 / 4)))
   \<and> driftDetected (calculateCareScore
      \<lparr> date = 0, heartRate = 95, hrv = 40, sleepDuration = 7.5, activityLevel = 8000,
        breathingRate = 14, systolicBP = 120, diastolicBP = 80, bloodSugar = 90,
        symptoms = [] \<rparr> 0)
   = driftDetected (calculateCareScore
      \<lparr> date = 1, heartRate = 70, hrv = 65, sleepDuration = 2.5, activityLevel = 5000,
        breathingRate = 14, systolicBP = 135, diastolicBP = 85, bloodSugar = 90,
        symptoms = [] \<rparr> (1 / 4))
   \<and> stability (calculateCareScore
      \<lparr> date = 0, heartRate = 95, hrv = 40, sleepDuration = 7.5, activityLevel = 8000,
        breathingRate = 14, systolicBP = 120, diastolicBP = 80, bloodSugar = 90,
        symptoms = [] \<rparr> 0)
   = stability (calculateCareScore
      \<lparr> date = 1, heartRate = 70, hrv = 65, sleepDuration = 2.5, activityLevel = 5000,
        breathingRate = 14, systolicBP = 135, diastolicBP = 85, bloodSugar = 90,
        symptoms = [] \<rparr> (1 / 4))"
proof -
  have t: "total (breakdown (calculateCareScore
      \<lparr> date = 0, heartRate = 95, hrv = 40, sleepDuration = 7.5, activityLevel = 8000,
        breathingRate = 14, systolicBP = 120, diastolicBP = 80, bloodSugar = 90,
        symptoms = [] \<rparr> 0))
   = total (breakdown (calculateCareScore
      \<lparr> date = 1, heartRate = 70, hrv = 65, sleepDuration = 2.5, activityLevel = 5000,
        breathingRate = 14, systolicBP = 135, diastolicBP = 85, bloodSugar = 90,
        symptoms = [] \<rparr> (1 / 4)))"
    by (simp add: calculateCareScore_def BASELINE_defs Let_def Math_round_def)
  with C5_drift_and_stability [of
      "\<lparr> date = 0, heartRate = 95, hrv = 40, sleepDuration = 7.5, activityLevel = 8000,
        breathingRate = 14, systolicBP = 120, diastolicBP = 80, bloodSugar = 90,
        symptoms = [] \<rparr>" 0
      "\<lparr> date = 1, heartRate = 70, hrv = 65, sleepDuration = 2.5, activityLevel = 5000,
        breathingRate = 14, systolicBP = 135, diastolicBP = 85, bloodSugar = 90,
        symptoms = [] \<rparr>" "1 / 4"]
  show ?thesis by blast
qed

subsection \<open>Fields that are not read\<close>

text \<open>
  Claim C10. \<open>calculateCareScore\<close> does not read the fields date, activityLevel and
  diastolicBP: two samples that agree on all the other fields give the same currentScore,
  breakdown, status, driftDetected and stability, whatever the two random draws are; the
  two results differ at most in confidence.
\<close>

theorem C10_unread_fields:
  assumes "heartRate m = heartRate m'" and "hrv m = hrv m'"
    and "sleepDuration m = sleepDuration m'" and "breathingRate m = breathingRate m'"
    and "systolicBP m = systolicBP m'" and "bloodSugar m = bloodSugar m'"
    and "symptoms m = symptoms m'"
  shows "currentScore (calculateCareScore m r) = currentScore (calculateCareScore m' r')
   \<and> breakdown (calculateCareScore m r) = breakdown (calculateCareScore m' r')
   \<and> status (calculateCareScore m r) = status (calculateCareScore m' r')
   \<and> driftDetected (calculateCareScore m r) = driftDetected (calculateCareScore m' r')
   \<and> stability (calculateCareScore m r) = stability (calculateCareScore m' r')
   \<and> calculateCareScore m r = (calculateCareScore m' r')\<lparr> confidence := 85 + r * 10 \<rparr>"
proof -
  have b: "breakdown (calculateCareScore m r) = breakdown (calculateCareScore m' r')"
  proof -
    have s: "severity (breakdown (calculateCareScore m r)) =
        severity (breakdown (calculateCareScore m' r'))"
      using assms by (simp add: calc_severity)
    have "persistence (breakdown (calculateCareScore m r)) =
        persistence (breakdown (calculateCareScore m' r'))"
      using s by (simp add: calc_persistence)
    moreover have "crossSignal (breakdown (calculateCareScore m r)) =
        crossSignal (breakdown (calculateCareScore m' r'))"
      using assms by (simp only: calc_crossSignal)
    moreover have "manualModifier (breakdown (calculateCareScore m r)) =
        manualModifier (breakdown (calculateCareScore m' r'))"
      using assms by (simp only: calc_manualModifier)
    ultimately have "total (breakdown (calculateCareScore m r)) =
        total (breakdown (calculateCareScore m' r'))"
      using s by (simp only: calc_total)
    with s \<open>persistence _ = _\<close> \<open>crossSignal _ = _\<close> \<open>manualModifier _ = _\<close>
    show ?thesis by (rule_tac CareScoreBreakdown.equality) simp_all
  qed
  then have "currentScore (calculateCareScore m r) = currentScore (calculateCareScore m' r')"
    and "status (calculateCareScore m r) = status (calculateCareScore m' r')"
    and "driftDetected (calculateCareScore m r) = driftDetected (calculateCareScore m' r')"
    and "stability (calculateCareScore m r) = stability (calculateCareScore m' r')"
    by (simp_all only: calc_currentScore calc_status calc_driftDetected calc_stability)
  moreover from this b
  have "calculateCareScore m r = (calculateCareScore m' r')\<lparr> confidence := 85 + r * 10 \<rparr>"
    by (rule_tac AnalysisResult.equality) (simp_all add: calc_confidence calc_trends)
  ultimately show ?thesis using b by blast
qed

text \<open>Two samples that differ in date, activityLevel and diastolicBP only.\<close>

theorem C10_unread_fields_witness:
  "breakdown (calculateCareScore
      \<lparr> date = 0, heartRate = 95, hrv = 40, sleepDuration = 6, activityLevel = 8000,
        breathingRate = 17, systolicBP = 135, diastolicBP = 80, bloodSugar = 90,
        symptoms = [''Fatigue''] \<rparr> 0)
   = breakdown (calculateCareScore
      \<lparr> date = 7, heartRate = 95, hrv = 40, sleepDuration = 6, activityLevel = 100,
        breathingRate = 17, systolicBP = 135, diastolicBP = 110, bloodSugar = 90,
        symptoms = [''Fatigue''] \<rparr> (1 / 2))
   \<and> status (calculateCareScore
      \<lparr> date = 0, heartRate = 95, hrv = 40, sleepDuration = 6, activityLevel = 8000,
        breathingRate = 17, systolicBP = 135, diastolicBP = 80, bloodSugar = 90,
        symptoms = [''Fatigue''] \<rparr> 0)
   = status (calculateCareScore
      \<lparr> date = 7, heartRate = 95, hrv = 40, sleepDuration = 6, activityLevel = 100,
        breathingRate = 17, systolicBP = 135, diastolicBP = 110, bloodSugar = 90,
        symptoms = [''Fatigue''] \<rparr> (1 / 2))"
  using C10_unread_fields [of
      "\<lparr> date = 0, heartRate = 95, hrv = 40, sleepDuration = 6, activityLevel = 8000,
        breathingRate = 17, systolicBP = 135, diastolicBP = 80, bloodSugar = 90,
        symptoms = [''Fatigue''] \<rparr>"
      "\<lparr> date = 7, heartRate = 95, hrv = 40, sleepDuration = 6, activityLevel = 100,
        breathingRate = 17, systolicBP = 135, diastolicBP = 110, bloodSugar = 90,
        symptoms = [''Fatigue''] \<rparr>" 0 "1 / 2"]
  by simp

subsection \<open>The generated series\<close>




text \<open>
  Claim C7, as amended. For a day index \<open>i\<close> the drift factor is 0 when \<open>i \<le> 30\<close> and
  \<open>(i - 30) / 30\<close> otherwise: a ramp that starts from 0 at index 30 and gains 1/30 with
  each day, up to 29/30 at index 59, the last of the window; inside the window it lies
  between 0 and 29/30. Every metric of sample \<open>i\<close> of a series is its baseline value,
  plus or minus the drift factor times the amplitude of the metric, plus its noise term.
  Consequently, when the eight random draws of day \<open>i \<le> 30\<close> are all one half, so that
  every noise term is zero, each metric of sample \<open>i\<close> is its baseline value: heartRate
  70, hrv 65, sleepDuration 7.5, activityLevel 8000, breathingRate 14, systolicBP 120,
  diastolicBP 80, bloodSugar 90.
\<close>

theorem C7_drift_factor:
  "driftFactor i = (if i \<le> 30 then 0 else (real i - 30) / 30)
   \<and> (30 \<le> i \<longrightarrow> driftFactor (Suc i) - driftFactor i = 1 / 30)
   \<and> driftFactor 30 = 0 \<and> driftFactor 59 = 29 / 30
   \<and> (i < 60 \<longrightarrow> 0 \<le> driftFactor i \<and> driftFactor i \<le> 29 / 30
      \<and> heartRate (generateSimulationData subDays clock rnd ! i) =
          70 + driftFactor i * 15 + (rnd (8 * i) - 1 / 2) * 5
      \<and> hrv (generateSimulationData subDays clock rnd ! i) =
          65 - driftFactor i * 20 + (rnd (8 * i + 1) - 1 / 2) * 10
      \<and> sleepDuration (generateSimulationData subDays clock rnd ! i) =
          max 4 (7.5 - driftFactor i * 2 + (rnd (8 * i + 2) - 1 / 2) * 1)
      \<and> activityLevel (generateSimulationData subDays clock rnd ! i) =
          8000 - driftFactor i * 3000 + (rnd (8 * i + 3) - 1 / 2) * 2000
      \<and> breathingRate (generateSimulationData subDays clock rnd ! i) =
          14 + driftFactor i * 4 + (rnd (8 * i + 4) - 1 / 2) * 2
      \<and> systolicBP (generateSimulationData subDays clock rnd ! i) =
          120 + driftFactor i * 10 + (rnd (8 * i + 5) - 1 / 2) * 5
      \<and> diastolicBP (generateSimulationData subDays clock rnd ! i) =
          80 + driftFactor i * 5 + (rnd (8 * i + 6) - 1 / 2) * 5
      \<and> bloodSugar (generateSimulationData subDays clock rnd ! i) =
          90 + driftFactor i * 15 + (rnd (8 * i + 7) - 1 / 2) * 10)
   \<and> (i \<le> 30 \<and> (\<forall>j<8. rnd (8 * i + j) = 1 / 2) \<longrightarrow>
        heartRate (generateSimulationData subDays clock rnd ! i) = 70
      \<and> hrv (generateSimulationData subDays clock rnd ! i) = 65
      \<and> sleepDuration (generateSimulationData subDays clock rnd ! i) = 7.5
      \<and> activityLevel (generateSimulationData subDays clock rnd ! i) = 8000
      \<and> breathingRate (generateSimulationData subDays clock rnd ! i) = 14
      \<and> systolicBP (generateSimulationData subDays clock rnd ! i) = 120
      \<and> diastolicBP (generateSimulationData subDays clock rnd ! i) = 80
      \<and> bloodSugar (generateSimulationData subDays clock rnd ! i) = 90)"
proof -
  let ?s = "generateSimulationData subDays clock rnd ! i"
  have formula: "driftFactor i = (if i \<le> 30 then 0 else (real i - 30) / 30)"
    by (simp add: driftFactor_def)
  have step: "30 \<le> i \<longrightarrow> driftFactor (Suc i) - driftFactor i = 1 / 30"
    by (simp add: driftFactor_def field_simps)
  have ends: "driftFactor 30 = 0" "driftFactor 59 = 29 / 30"
    by (simp_all add: driftFactor_def)
  have fields: "0 \<le> driftFactor i \<and> driftFactor i \<le> 29 / 30
      \<and> heartRate ?s = 70 + driftFactor i * 15 + (rnd (8 * i) - 1 / 2) * 5
      \<and> hrv ?s = 65 - driftFactor i * 20 + (rnd (8 * i + 1) - 1 / 2) * 10
      \<and> sleepDuration ?s = max 4 (7.5 - driftFactor i * 2 + (rnd (8 * i + 2) - 1 / 2) * 1)
      \<and> activityLevel ?s = 8000 - driftFactor i * 3000 + (rnd (8 * i + 3) - 1 / 2) * 2000
      \<and> breathingRate ?s = 14 + driftFactor i * 4 + (rnd (8 * i + 4) - 1 / 2) * 2
      \<and> systolicBP ?s = 120 + driftFactor i * 10 + (rnd (8 * i + 5) - 1 / 2) * 5
      \<and> diastolicBP ?s = 80 + driftFactor i * 5 + (rnd (8 * i + 6) - 1 / 2) * 5
      \<and> bloodSugar ?s = 90 + driftFactor i * 15 + (rnd (8 * i + 7) - 1 / 2) * 10"
    if "i < 60"
    using that driftFactor_range [of i]
    by (simp only: generateSimulationData_nth generate_day_fields)
  have base: "heartRate ?s = 70 \<and> hrv ?s = 65 \<and> sleepDuration ?s = 7.5
      \<and> activityLevel ?s = 8000 \<and> breathingRate ?s = 14 \<and> systolicBP ?s = 120
      \<and> diastolicBP ?s = 80 \<and> bloodSugar ?s = 90"
    if i: "i \<le> 30" and quiet: "\<forall>j<8. rnd (8 * i + j) = 1 / 2"
  proof -
    have r: "rnd (8 * i) = 1 / 2" "rnd (8 * i + 1) = 1 / 2" "rnd (8 * i + 2) = 1 / 2"
      "rnd (8 * i + 3) = 1 / 2" "rnd (8 * i + 4) = 1 / 2" "rnd (8 * i + 5) = 1 / 2"
      "rnd (8 * i + 6) = 1 / 2" "rnd (8 * i + 7) = 1 / 2"
      using quiet [rule_format, of 0] quiet [rule_format, of 1] quiet [rule_format, of 2]
        quiet [rule_format, of 3] quiet [rule_format, of 4] quiet [rule_format, of 5]
        quiet [rule_format, of 6] quiet [rule_format, of 7]
      by simp_all
    have "?s = generate_day subDays clock rnd i"
      using i by (simp add: generateSimulationData_nth)
    moreover have "driftFactor i = 0"
      using i by (simp add: driftFactor_def)
    ultimately show ?thesis
      by (simp only: generate_day_fields r) simp
  qed
  from formula step ends fields base show ?thesis by blast
qed

text \<open>Day 30, the last one without drift, with every noise term zero.\<close>

theorem C7_drift_factor_witness:
  "driftFactor 30 = 0
   \<and> heartRate (generateSimulationData calendar_subDays clock_same_day rnd_half ! 30) = 70
   \<and> sleepDuration (generateSimulationData calendar_subDays clock_same_day rnd_half ! 30) = 7.5
   \<and> bloodSugar (generateSimulationData calendar_subDays clock_same_day rnd_half ! 30) = 90"
  using C7_drift_factor [of 30 calendar_subDays clock_same_day rnd_half]
  by (simp add: rnd_half_def)

text \<open>
  Claim C7 as stated fails at the end of the ramp: the drift factor of the last day of
  the window is 29/30, not 1, so that without noise the last heartRate is 84.5 and stays
  below the 85 that a factor of 1 would give.
\<close>

theorem C7_ramp_counterexample:
  "driftFactor 59 = 29 / 30 \<and> driftFactor 59 < 1
   \<and> heartRate (generateSimulationData calendar_subDays clock_same_day rnd_half ! 59) = 84.5
   \<and> heartRate (generateSimulationData calendar_subDays clock_same_day rnd_half ! 59) < 70 + 1 * 15"
  by (simp add: generateSimulationData_nth generate_day_fields driftFactor_def rnd_half_def)

text \<open>
  Claim C8. In every series the samples at the indices up to 45 have no symptoms and the
  samples at the indices above 45 have the fixed two symptoms: the non-empty symptom lists
  are those of exactly the last 14 of the 60 days.
\<close>

theorem C8_symptoms_window:
  "map symptoms (generateSimulationData subDays clock rnd) =
     replicate 46 [] @ replicate 14 [''Fatigue'', ''Mild Dizziness'']
   \<and> (i < 60 \<longrightarrow> symptoms (generateSimulationData subDays clock rnd ! i) =
        (if i \<le> 45 then [] else [''Fatigue'', ''Mild Dizziness'']))
   \<and> {i. i < 60 \<and> symptoms (generateSimulationData subDays clock rnd ! i) \<noteq> []} = {46..<60}
   \<and> length (filter (\<lambda>s. symptoms s \<noteq> []) (generateSimulationData subDays clock rnd)) = 14"
proof -
  let ?xs = "generateSimulationData subDays clock rnd"
  have all: "map symptoms ?xs = replicate 46 [] @ replicate 14 [''Fatigue'', ''Mild Dizziness'']"
    by (rule symptoms_of_series)
  have nth: "symptoms (?xs ! i) = (if i \<le> 45 then [] else [''Fatigue'', ''Mild Dizziness''])"
    if "i < 60" for i
    using that by (simp add: generateSimulationData_nth generate_day_symptoms)
  have idx: "{i. i < 60 \<and> symptoms (?xs ! i) \<noteq> []} = {46..<60}"
    by (auto simp: nth split: if_splits)
  have "length (filter (\<lambda>s. symptoms s \<noteq> []) ?xs) =
      length (filter (\<lambda>x. x \<noteq> []) (map symptoms ?xs))"
    by (simp add: filter_map comp_def)
  also have "\<dots> = 14"
    unfolding all by simp
  finally have cnt: "length (filter (\<lambda>s. symptoms s \<noteq> []) ?xs) = 14" .
  from all nth idx cnt show ?thesis by blast
qed

text \<open>Index 46 is the first day with symptoms.\<close>

theorem C8_symptoms_window_witness:
  "(46 :: nat) < 60
   \<and> symptoms (generateSimulationData calendar_subDays (\<lambda>n. 20000) (\<lambda>k. 1 / 2) ! 46) =
       [''Fatigue'', ''Mild Dizziness'']"
  using C8_symptoms_window [of calendar_subDays "\<lambda>n. 20000" "\<lambda>k. 1 / 2" 46] by simp

end
